theory Spec2Isabelle
  imports Main
begin

section \<open>JavaScript values\<close>

text \<open>
  The values the modelled code tests dynamically (\<open>$.is.number\<close>, \<open>$.is.string\<close>,
  \<open>||\<close>, \<open>=== false\<close>). Numbers are integers throughout: the columns involved are
  declared \<open>type: 'integer'\<close> in \<open>loadTables\<close>, and fractions, \<open>NaN\<close> and the
  rounding of doubles beyond \<open>2^53\<close> are outside the model.
\<close>

datatype jsval = JUndefined | JNull | JBool bool | JNum int | JStr string

text \<open>ToBoolean, as \<open>if (x)\<close>, \<open>!x\<close> and \<open>x || y\<close> apply it.\<close>

fun truthy :: "jsval \<Rightarrow> bool" where
  "truthy JUndefined = False"
| "truthy JNull = False"
| "truthy (JBool b) = b"
| "truthy (JNum n) = (n \<noteq> 0)"
| "truthy (JStr s) = (s \<noteq> [])"

text \<open>\<open>a || b\<close> on values.\<close>

definition js_or :: "jsval \<Rightarrow> jsval \<Rightarrow> jsval" where
  "js_or a b = (if truthy a then a else b)"

fun is_number :: "jsval \<Rightarrow> bool" where
  "is_number (JNum n) = True"
| "is_number v = False"

fun is_string :: "jsval \<Rightarrow> bool" where
  "is_string (JStr s) = True"
| "is_string v = False"

text \<open>
  A value read from an integer column: a number, or \<open>null\<close> (\<open>None\<close>) when the
  cell is NULL or no row matches.
\<close>

type_synonym cell = "int option"

text \<open>ToNumber on such a value: \<open>null\<close> converts to \<open>+0\<close>.\<close>

fun to_number :: "cell \<Rightarrow> int" where
  "to_number None = 0"
| "to_number (Some n) = n"

text \<open>\<open>a > b\<close> on two such values (both operands go through ToNumber).\<close>

definition js_gt :: "cell \<Rightarrow> cell \<Rightarrow> bool" where
  "js_gt a b = (to_number b < to_number a)"

text \<open>Truthiness of such a value: \<open>null\<close> and \<open>0\<close> are falsy.\<close>

fun truthy_cell :: "cell \<Rightarrow> bool" where
  "truthy_cell None = False"
| "truthy_cell (Some n) = (n \<noteq> 0)"

text \<open>
  Truthiness of an optional string argument (\<open>undefined\<close> is \<open>None\<close>): the empty
  string is falsy as well.
\<close>

fun truthy_str :: "string option \<Rightarrow> bool" where
  "truthy_str None = False"
| "truthy_str (Some s) = (s \<noteq> [])"

datatype error = ReferenceError string | TypeError string | Thrown string

section \<open>The bot's state\<close>

text \<open>
  A chat event as the platform connector delivers it, with the fields \<open>runCommand\<close>
  assigns to it later (\<open>subcommand\<close>, \<open>subArgs\<close>, \<open>subArgString\<close>, \<open>respond\<close>).
\<close>

datatype responder = WhisperTo string | SayTo string

record event =
  command :: string
  args :: "string list"
  sender :: string
  whispered :: bool
  groupID :: int
  subcommand :: "string option"
  subArgs :: "string list option"
  subArgString :: "string option"
  respond :: "responder option"

text \<open>The texts the dispatcher logs and sends, by their template and its holes.\<close>

datatype message =
    NotRegistered string
  | NotEnabled string "string option"
  | OnCooldown string string jsval
  | WaitNotice jsval string
  | NoPermission string string
  | NoPermissionNotice string
  | NotEnoughPoints string string
  | NotEnoughNotice string cell cell
  | Text string

text \<open>
  The calls on collaborators whose code is outside the sources (logger, chat
  connector, cooldown tracker, event bus), recorded in the order they are made.
\<close>

datatype effect =
    LogEvent string message
  | Log string message
  | LogError string message
  | Whisper string message
  | Say string message
  | StartCooldown string string "string option"
  | Emit string event
  | LoggerBot message
  | LoggerAbsurd string bool
  | LoggerError error

text \<open>A row of the \<open>users\<close> table, with the columns the points extension reads.\<close>

record user_row =
  points :: int
  rank :: jsval
  permission :: jsval

text \<open>
  The state the points extension and the dispatcher work on. Each table is given by
  what the store's \<open>get\<close> resolves to for an equality filter on the key column;
  following the spec's contract of the store (\<open>get \<rightarrow> value|null\<close>), a filter that
  matches no row resolves to \<open>null\<close>.
\<close>

record world =
  users :: "string \<rightharpoonup> user_row"
  commands_price :: "string \<rightharpoonup> int"
  subcommands_price :: "string \<rightharpoonup> int"
  ranks_bonus :: "jsval \<rightharpoonup> jsval"
  groups_bonus_by_level :: "jsval \<rightharpoonup> jsval"
  groups_bonus_by_name :: "jsval \<rightharpoonup> jsval"
  settings :: "string \<rightharpoonup> int"
  cache_lastPayout :: "int option"
  cache_lastUserList :: "string list option"
  stream_isLive :: bool
  user_list :: "string list option"
  botName :: string
  out :: "effect list"

text \<open>\<open>$.db.get(table, column, where)\<close> on a table of dynamically typed cells.\<close>

definition db_get :: "('k \<rightharpoonup> jsval) \<Rightarrow> 'k \<Rightarrow> jsval" where
  "db_get t k = (case t k of None \<Rightarrow> JNull | Some v \<Rightarrow> v)"

text \<open>
  Modelled from the spec: the store's \<open>incr\<close> and \<open>decr\<close> (module
  \<open>common/components/db\<close>, not among the sources) are the atomic increment and
  decrement of one column of the rows matching the filter; with no matching row
  nothing changes.
\<close>

definition db_incr_points :: "string \<Rightarrow> int \<Rightarrow> world \<Rightarrow> world" where
  "db_incr_points user n w =
     (case users w user of
        None \<Rightarrow> w
      | Some r \<Rightarrow> w\<lparr>users := (users w)(user \<mapsto> r\<lparr>points := points r + n\<rparr>)\<rparr>)"

definition db_decr_points :: "string \<Rightarrow> int \<Rightarrow> world \<Rightarrow> world" where
  "db_decr_points user n w =
     (case users w user of
        None \<Rightarrow> w
      | Some r \<Rightarrow> w\<lparr>users := (users w)(user \<mapsto> r\<lparr>points := points r - n\<rparr>)\<rparr>)"

text \<open>\<open>$.settings.get(key, default)\<close>.\<close>

definition settings_get :: "world \<Rightarrow> string \<Rightarrow> int \<Rightarrow> int" where
  "settings_get w key dflt = (case settings w key of None \<Rightarrow> dflt | Some v \<Rightarrow> v)"

section \<open>The points extension (\<open>points/component.js\<close>)\<close>

text \<open>
  Each function is modelled from its own text. \<open>setPayoutInterval\<close>, which has a
  stray brace in the source (line 149), and the other setters are not needed below.
  \<open>Promise.map\<close> is Bluebird's.
\<close>

text \<open>
  \<open>add\<close> and \<open>sub\<close>: the amount is what \<open>parseInt\<close> makes of the argument, which
  for the numbers passed by the callers modelled here is the number itself.
\<close>

definition add :: "string \<Rightarrow> int \<Rightarrow> world \<Rightarrow> world" where
  "add user amount w = db_incr_points user amount w"

definition sub :: "string \<Rightarrow> int \<Rightarrow> world \<Rightarrow> world" where
  "sub user amount w = db_decr_points user amount w"

text \<open>\<open>getUserPoints(user)\<close> without \<open>asString\<close>: the \<open>points\<close> cell of the user's row.\<close>

definition getUserPoints :: "world \<Rightarrow> string \<Rightarrow> cell" where
  "getUserPoints w user = (case users w user of None \<Rightarrow> None | Some r \<Rightarrow> Some (points r))"

text \<open>
  \<open>getCommandPrice(cmd, sub)\<close>. With a subcommand the \<open>subcommands\<close> table is
  queried with the filter \<open>{ name: cmd }\<close>: the key is the command's name, and
  \<open>sub\<close> is only tested for truthiness.
\<close>

definition getCommandPrice :: "world \<Rightarrow> string \<Rightarrow> string option \<Rightarrow> cell" where
  "getCommandPrice w cmd sb =
     (if \<not> truthy_str sb then commands_price w cmd
      else (let res = subcommands_price w cmd
            in if res = Some (- 1) then commands_price w cmd else res))"

text \<open>\<open>canAffordCommand\<close>: the triple \<open>[points > price, points, price]\<close>.\<close>

definition canAffordCommand :: "world \<Rightarrow> string \<Rightarrow> string \<Rightarrow> string option \<Rightarrow> bool \<times> cell \<times> cell" where
  "canAffordCommand w user cmd sb =
     (let price = getCommandPrice w cmd sb;
          pts = getUserPoints w user
      in (js_gt pts price, pts, price))"

text \<open>
  \<open>getPayoutAmount(offline)\<close> and \<open>getPayoutInterval(offline)\<close>, with the defaults of
  the source.
\<close>

definition getPayoutAmount :: "world \<Rightarrow> bool \<Rightarrow> int" where
  "getPayoutAmount w offline =
     (if \<not> offline then settings_get w ''pointsPayoutLive'' 6
      else settings_get w ''pointsPayoutOffline'' (- 1))"

definition getPayoutInterval :: "world \<Rightarrow> bool \<Rightarrow> int" where
  "getPayoutInterval w offline =
     (if \<not> offline then settings_get w ''pointsIntervalLive'' 5
      else settings_get w ''pointsIntervalOffline'' (- 1))"

text \<open>
  \<open>getRankBonus(rank)\<close>: the stored bonus when \<open>$.is.number\<close> accepts it, else \<open>0\<close>.
\<close>

definition getRankBonus :: "world \<Rightarrow> jsval \<Rightarrow> int" where
  "getRankBonus w rnk =
     (let storedRankBonus = db_get (ranks_bonus w) rnk
      in case storedRankBonus of JNum n \<Rightarrow> n | _ \<Rightarrow> 0)"

text \<open>
  \<open>getGroupBonus(group)\<close>. The source reads the stored bonus into
  \<open>storedGroupBonus\<close> and then returns \<open>_storedGroupBonus || 0\<close>: the identifier
  with the underscore is declared nowhere, so evaluating it throws a ReferenceError
  whenever the group is a number or a string. Only the last branch returns.
\<close>

definition getGroupBonus :: "world \<Rightarrow> jsval \<Rightarrow> error + int" where
  "getGroupBonus w grp =
     (if is_number grp then
        (let storedGroupBonus = db_get (groups_bonus_by_level w) grp
         in Inl (ReferenceError ''_storedGroupBonus is not defined''))
      else if is_string grp then
        (let storedGroupBonus = db_get (groups_bonus_by_name w) grp
         in Inl (ReferenceError ''_storedGroupBonus is not defined''))
      else Inr 0)"

text \<open>
  \<open>await getRankBonus(res.rank) || await getGroupBonus(res.permission)\<close>: the group
  bonus is looked up only when the rank bonus is falsy, that is \<open>0\<close>.
\<close>

definition bonus_of :: "world \<Rightarrow> user_row \<Rightarrow> error + int" where
  "bonus_of w res =
     (let rankBonus = getRankBonus w (rank res)
      in if rankBonus \<noteq> 0 then Inr rankBonus else getGroupBonus w (permission res))"

text \<open>
  The callback \<open>run\<close> maps over the user list (lines 100 to 110). It returns the
  error it rejected with, if any; a rejection happens before the increment.
\<close>

definition payUser :: "int \<Rightarrow> string list \<Rightarrow> string \<Rightarrow> world \<Rightarrow> error option \<times> world" where
  "payUser payout lastUserList user w =
     (if user = botName w then (None, w)
      else if user \<notin> set lastUserList then (None, w)
      else (case users w user of
              None \<Rightarrow> (None, w)
            | Some res \<Rightarrow>
                (case bonus_of w res of
                   Inl e \<Rightarrow> (Some e, w)
                 | Inr bonus \<Rightarrow> (None, db_incr_points user (payout + bonus) w))))"

text \<open>
  \<open>Promise.map(list, callback)\<close> (Bluebird's): the callback is started for every
  element, and the result rejects when a callback rejects. A rejection does not stop
  the callbacks already started, so the state reached holds the increments of all the
  callbacks that succeed; they touch the \<open>points\<close> column only, which no callback
  reads, so the order in which they run does not matter.
\<close>

fun promise_map :: "(string \<Rightarrow> world \<Rightarrow> error option \<times> world) \<Rightarrow> string list \<Rightarrow> world
    \<Rightarrow> error option \<times> world" where
  "promise_map f [] w = (None, w)"
| "promise_map f (u # us) w =
     (case f u w of
        (e, w1) \<Rightarrow>
          (case promise_map f us w1 of
             (es, w2) \<Rightarrow> ((case e of Some x \<Rightarrow> Some x | None \<Rightarrow> es), w2)))"

text \<open>
  Lines 97 to 113 of \<open>run\<close>, reached with the payout chosen: the payments, then the
  two cache writes. A rejected \<open>Promise.map\<close> makes \<open>run\<close> reject at the \<open>await\<close>,
  before the cache is written.
\<close>

definition run_pay :: "int \<Rightarrow> int \<Rightarrow> world \<Rightarrow> error option \<times> world" where
  "run_pay now payout w =
     (let userList = (case user_list w of None \<Rightarrow> [] | Some l \<Rightarrow> l);
          lastUserList = (case cache_lastUserList w of None \<Rightarrow> [] | Some l \<Rightarrow> l)
      in case promise_map (payUser payout lastUserList) userList w of
           (Some e, w1) \<Rightarrow> (Some e, w1)
         | (None, w1) \<Rightarrow>
             (None, w1\<lparr>cache_lastUserList := Some userList, cache_lastPayout := Some now\<rparr>))"

text \<open>
  \<open>run()\<close>, the payout job; \<open>now\<close> is \<open>Date.now()\<close>. In the live branch there is
  no \<open>else\<close> beside the test of amount and interval: when the test fails, control
  falls through to the payments with \<open>payout\<close> still \<open>0\<close>. The offline branch
  returns there.
\<close>

definition run :: "int \<Rightarrow> world \<Rightarrow> error option \<times> world" where
  "run now w =
     (let lastPayout = (case cache_lastPayout w of None \<Rightarrow> 0 | Some t \<Rightarrow> t);
          liveInt = getPayoutInterval w False;
          offInt = getPayoutInterval w True;
          liveAmt = getPayoutAmount w False;
          offAmt = getPayoutAmount w True;
          nextLivePayout = lastPayout + (liveInt * 60 * 1000);
          nextOfflinePayout = lastPayout + (offInt * 60 * 1000)
      in if stream_isLive w then
           (if liveAmt > 0 \<and> liveInt > 0 then
              (if nextLivePayout \<ge> now then (None, w) else run_pay now liveAmt w)
            else run_pay now 0 w)
         else
           (if offAmt > 0 \<and> offInt > 0 then
              (if nextOfflinePayout \<ge> now then (None, w) else run_pay now offAmt w)
            else (None, w)))"

section \<open>The dispatcher (\<open>renderer/bot/index.js\<close>)\<close>

text \<open>
  How a call of a command handler ends. \<open>Threw e\<close>: the call itself throws \<open>e\<close>.
  \<open>Rejected e\<close>: the call returns a promise that rejects with \<open>e\<close>, which is what
  an \<open>async\<close> function does when its body throws. \<open>Returned\<close>: the call returns
  anything else.
\<close>

datatype outcome = Returned | Threw error | Rejected error

text \<open>
  A command handler: it may change the state and call collaborators; the state it
  gives back is the one it leaves.
\<close>

type_synonym handler = "event \<Rightarrow> world \<Rightarrow> outcome \<times> world"

text \<open>
  The collaborators of \<open>runCommand\<close> whose code is not among the sources (command
  registry, cooldown tracker, extension loader, extension settings, template
  rendering), each given by what its call answers during one dispatch.
  \<open>getRunner\<close> answers \<open>Inl\<close> when resolving the handler throws.
\<close>

record ports =
  getExtConfig :: "string \<Rightarrow> string \<Rightarrow> bool \<Rightarrow> bool"
  command_exists :: "string \<Rightarrow> string option \<Rightarrow> bool"
  command_isEnabled :: "string \<Rightarrow> string option \<Rightarrow> bool"
  command_getPermLevel :: "string \<Rightarrow> string option \<Rightarrow> int"
  command_isOnCooldown :: "string \<Rightarrow> string \<Rightarrow> string option \<Rightarrow> jsval"
  command_isCustom :: "string \<Rightarrow> bool"
  custom_response :: "string \<Rightarrow> jsval"
  params :: "event \<Rightarrow> jsval \<Rightarrow> string"
  getRunner :: "string \<Rightarrow> error + handler"

text \<open>\<open>String.prototype.toLowerCase\<close> on the ASCII letters.\<close>

definition toLowerCase :: "string \<Rightarrow> string" where
  "toLowerCase s =
     map (\<lambda>c. if 65 \<le> (of_char c :: nat) \<and> (of_char c :: nat) \<le> 90
              then char_of ((of_char c :: nat) + 32) else c) s"

text \<open>\<open>Array.prototype.join(' ')\<close>.\<close>

fun join_space :: "string list \<Rightarrow> string" where
  "join_space [] = []"
| "join_space [x] = x"
| "join_space (x # y # ys) = x @ '' '' @ join_space (y # ys)"

text \<open>
  \<open>getSubcommand(event)\<close>: the lower-cased first argument when it names a
  subcommand of the command, with the fields to assign to the event; otherwise
  \<open>[undefined, {}]\<close>.
\<close>

definition getSubcommand :: "ports \<Rightarrow> event \<Rightarrow> string option \<times> (string \<times> string list \<times> string) option" where
  "getSubcommand p ev =
     (case args ev of
        [] \<Rightarrow> (None, None)
      | query # rest \<Rightarrow>
          (let cased = toLowerCase query
           in if query = [] \<or> \<not> command_exists p (command ev) (Some cased) then (None, None)
              else (let sArgs = drop 1 (args ev);
                        sArgString = join_space sArgs
                    in (Some cased, Some (cased, sArgs, sArgString)))))"

text \<open>\<open>Object.assign(event, subEvent)\<close>.\<close>

definition assign_subEvent :: "event \<Rightarrow> (string \<times> string list \<times> string) option \<Rightarrow> event" where
  "assign_subEvent ev se =
     (case se of
        None \<Rightarrow> ev
      | Some (c, sArgs, sArgString) \<Rightarrow>
          ev\<lparr>subcommand := Some c, subArgs := Some sArgs, subArgString := Some sArgString\<rparr>)"

text \<open>\<open>createResponder\<close>: bound to \<open>whisper\<close> or to \<open>say\<close>, with the sender.\<close>

definition createResponder :: "event \<Rightarrow> responder" where
  "createResponder ev = (if whispered ev then WhisperTo (sender ev) else SayTo (sender ev))"

definition error_message :: "error \<Rightarrow> string" where
  "error_message e = (case e of ReferenceError m \<Rightarrow> m | TypeError m \<Rightarrow> m | Thrown m \<Rightarrow> m)"

definition emit_log :: "effect list \<Rightarrow> world \<Rightarrow> world" where
  "emit_log es w = w\<lparr>out := out w @ es\<rparr>"

text \<open>
  \<open>runCommand\<close> is one function in the source; it is written here in four parts,
  each continuing into the next. First the last part, lines 188 to 192: the
  cooldown start, the debit and the completion event.
\<close>

definition runCommand_commit :: "ports \<Rightarrow> bool \<Rightarrow> bool \<Rightarrow> cell \<Rightarrow> string option \<Rightarrow> event \<Rightarrow> world
    \<Rightarrow> error option \<times> world" where
  "runCommand_commit p pointsEnabled cooldownsEnabled charge subcmd ev w =
     (let w1 = (if cooldownsEnabled
                then emit_log [StartCooldown (command ev) (sender ev) subcmd] w else w);
          w2 = (if pointsEnabled \<and> truthy_cell charge
                then sub (sender ev) (to_number charge) w1 else w1);
          channel = ''command:'' @ command ev
                    @ (case subcmd of None \<Rightarrow> [] | Some s \<Rightarrow> if s \<noteq> [] then '':'' @ s else [])
      in (None, emit_log [Emit channel ev] w2))"

text \<open>
  Lines 169 to 186: the responder is attached, then the custom response is said or
  the handler is resolved and called inside \<open>try\<close>; the \<open>catch\<close> logs and returns.
  The call is not awaited: a promise it returns is dropped, so a rejection is not a
  throw inside the \<open>try\<close>, and control goes on to the commit as after a return.
\<close>

definition runCommand_execute :: "ports \<Rightarrow> bool \<Rightarrow> bool \<Rightarrow> cell \<Rightarrow> string option \<Rightarrow> event \<Rightarrow> world
    \<Rightarrow> error option \<times> world" where
  "runCommand_execute p pointsEnabled cooldownsEnabled charge subcmd ev0 w =
     (let ev = ev0\<lparr>respond := Some (createResponder ev0)\<rparr>
      in if command_isCustom p (command ev) then
           (let response = custom_response p (command ev);
                w1 = emit_log [Say (sender ev) (Text (params p ev response))] w
            in runCommand_commit p pointsEnabled cooldownsEnabled charge subcmd ev w1)
         else
           (case getRunner p (command ev) of
              Inl e \<Rightarrow> (None, emit_log [LogError ''core'' (Text (error_message e))] w)
            | Inr h \<Rightarrow>
                (case h ev w of
                   (Threw e, w1) \<Rightarrow>
                     (None, emit_log [LogError ''core'' (Text (error_message e))] w1)
                 | (Returned, w1) \<Rightarrow>
                     runCommand_commit p pointsEnabled cooldownsEnabled charge subcmd ev w1
                 | (Rejected e, w1) \<Rightarrow>
                     runCommand_commit p pointsEnabled cooldownsEnabled charge subcmd ev w1)))"

text \<open>Lines 148 to 167: the affordability check, which fixes the charge.\<close>

definition runCommand_afford :: "ports \<Rightarrow> bool \<Rightarrow> bool \<Rightarrow> string option \<Rightarrow> event \<Rightarrow> world
    \<Rightarrow> error option \<times> world" where
  "runCommand_afford p pointsEnabled cooldownsEnabled subcmd ev w =
     (if pointsEnabled then
        (case canAffordCommand w (sender ev) (command ev) subcmd of
           (canAfford, userPoints, commandPrice) \<Rightarrow>
             if \<not> canAfford then
               (None, emit_log
                  [Log ''core'' (NotEnoughPoints (sender ev) (command ev)),
                   Whisper (sender ev) (NotEnoughNotice (command ev) commandPrice userPoints)] w)
             else runCommand_execute p pointsEnabled cooldownsEnabled commandPrice subcmd ev w)
      else runCommand_execute p pointsEnabled cooldownsEnabled (Some 0) subcmd ev w)"

text \<open>
  Lines 90 to 146: subcommand resolution, the policy reads, and the existence,
  enablement, cooldown and permission checks.
\<close>

definition runCommand :: "ports \<Rightarrow> event \<Rightarrow> world \<Rightarrow> error option \<times> world" where
  "runCommand p event0 w =
     (case getSubcommand p event0 of
        (subcmd, subEvent) \<Rightarrow>
          (let ev = (if truthy_str subcmd then assign_subEvent event0 subEvent else event0);
               pointsEnabled = getExtConfig p ''points'' ''enabled'' True;
               cooldownsEnabled = getExtConfig p ''cooldown'' ''enabled'' True;
               commandExists = command_exists p (command event0) None;
               commandIsEnabled = command_isEnabled p (command event0) subcmd;
               commandPermission = command_getPermLevel p (command event0) subcmd
           in if \<not> commandExists then
                (None, emit_log [LogEvent ''core'' (NotRegistered (command event0))] w)
              else if \<not> commandIsEnabled then
                (None, emit_log [LogEvent ''core'' (NotEnabled (command event0) subcmd)] w)
              else
                (let cooldownActive =
                       command_isOnCooldown p (command event0) (sender event0) subcmd
                 in if cooldownsEnabled \<and> truthy cooldownActive then
                      (None, emit_log
                         [LogEvent ''core''
                            (OnCooldown (command event0) (sender event0) cooldownActive),
                          Whisper (sender ev) (WaitNotice cooldownActive (command event0))] w)
                    else if groupID event0 > commandPermission then
                      (None, emit_log
                         [LogEvent ''core'' (NoPermission (sender event0) (command event0)),
                          Whisper (sender event0) (NoPermissionNotice (command event0))] w)
                    else runCommand_afford p pointsEnabled cooldownsEnabled subcmd ev w)))"

section \<open>The event bus (\<open>Core.on\<close>)\<close>

text \<open>
  \<open>Core\<close> extends the \<open>EventEmitter\<close> of the eventemitter2 package, a third-party
  library. Its part is taken as the library documents it, for a channel named
  literally (no wildcard pattern): the listeners of a channel are kept in the order
  they were added, \<open>on\<close> appends one, \<open>off\<close> removes one occurrence of the listener
  given when there is one, and \<open>emit\<close> calls the channel's listeners in order. A
  listener is identified by a number standing for the function object, compared as
  \<open>===\<close> compares it.
\<close>

type_synonym listener = nat

record emitter =
  listeners :: "string \<Rightarrow> listener list"

definition super_on :: "string \<Rightarrow> listener \<Rightarrow> emitter \<Rightarrow> emitter" where
  "super_on channel fn e = e\<lparr>listeners := (listeners e)(channel := listeners e channel @ [fn])\<rparr>"

definition off :: "string \<Rightarrow> listener \<Rightarrow> emitter \<Rightarrow> emitter" where
  "off channel fn e = e\<lparr>listeners := (listeners e)(channel := remove1 fn (listeners e channel))\<rparr>"

text \<open>The listeners one emission on the channel calls, in order.\<close>

definition emit :: "string \<Rightarrow> emitter \<Rightarrow> listener list" where
  "emit channel e = listeners e channel"

text \<open>\<open>Core.on(channel, fn, single = true)\<close>, the override in the source.\<close>

definition on :: "string \<Rightarrow> listener \<Rightarrow> bool \<Rightarrow> emitter \<Rightarrow> emitter" where
  "on channel fn single e = super_on channel fn (if single then off channel fn e else e)"

section \<open>The legacy core (\<open>app/bot/core.js\<close>, \<open>app/db.js\<close>)\<close>

text \<open>
  The collaborators of the legacy core outside the sources: the command registry
  object, the two store reads and the module handler.
\<close>

record legacy_ports =
  registry :: "string \<rightharpoonup> string \<times> string"
  botDB_getValue :: "string \<Rightarrow> string \<Rightarrow> string \<Rightarrow> jsval"
  botStore_get :: "string \<Rightarrow> jsval"
  legacy_getRunner :: "string \<Rightarrow> error + handler"

text \<open>\<open>core.command.getCooldown(cmd)\<close>: the value read, or \<open>30\<close> when it is falsy.\<close>

definition cooldown_query :: "string \<Rightarrow> string" where
  \<open>cooldown_query cmd = ''SELECT cooldown FROM commands WHERE name="'' @ cmd @ ''"''\<close>

definition getCooldown :: "legacy_ports \<Rightarrow> string \<Rightarrow> jsval" where
  "getCooldown lp cmd = js_or (botStore_get lp (cooldown_query cmd)) (JNum 30)"

text \<open>\<open>db.bot.getCommandStatus(cmd)\<close>, which logs the status it read.\<close>

definition getCommandStatus :: "legacy_ports \<Rightarrow> string \<Rightarrow> world \<Rightarrow> jsval \<times> world" where
  "getCommandStatus lp cmd w =
     (let raw = botDB_getValue lp ''commands'' ''status'' cmd;
          status = (if truthy raw then JBool (raw = JStr ''true'') else raw)
      in (status, emit_log [LoggerAbsurd cmd (truthy status)] w))"

text \<open>
  The legacy \<open>core.runCommand(event)\<close>; its \<open>try\<close> does not await the call
  either.
\<close>

definition legacy_runCommand :: "legacy_ports \<Rightarrow> event \<Rightarrow> world \<Rightarrow> world" where
  "legacy_runCommand lp ev w =
     (if registry lp (command ev) = None then
        emit_log [LoggerBot (NotRegistered (command ev))] w
      else
        (case getCommandStatus lp (command ev) w of
           (status, w1) \<Rightarrow>
             if status = JBool False then
               emit_log [LoggerBot (NotEnabled (command ev) None)] w1
             else
               (case legacy_getRunner lp (command ev) of
                  Inl err \<Rightarrow> emit_log [LoggerError err] w1
                | Inr h \<Rightarrow>
                    (case h ev w1 of
                       (Threw err, w2) \<Rightarrow> emit_log [LoggerError err] w2
                     | (Returned, w2) \<Rightarrow> w2
                     | (Rejected err, w2) \<Rightarrow> w2))))"

section \<open>Example states\<close>

text \<open>A state with nothing stored, from which the examples below are built.\<close>

definition empty_world :: world where
  "empty_world =
     \<lparr>users = Map.empty, commands_price = Map.empty, subcommands_price = Map.empty,
      ranks_bonus = Map.empty, groups_bonus_by_level = Map.empty,
      groups_bonus_by_name = Map.empty, settings = Map.empty,
      cache_lastPayout = None, cache_lastUserList = None, stream_isLive = False,
      user_list = None, botName = ''singularity'', out = []\<rparr>"

text \<open>A user whose balance equals the price of the command.\<close>

definition c1_world :: world where
  "c1_world = empty_world
     \<lparr>users := [''alice'' \<mapsto> \<lparr>points = 20, rank = JNum 1, permission = JNum 1\<rparr>],
      commands_price := [''points'' \<mapsto> 20]\<rparr>"

text \<open>
  The stream is live and the live payout amount is set to \<open>0\<close>; the last payout was
  one second before the run at \<open>2000\<close>, and the user's rank carries a bonus of \<open>3\<close>.
\<close>

definition c2_world :: world where
  "c2_world = empty_world
     \<lparr>users := [''alice'' \<mapsto> \<lparr>points = 10, rank = JNum 1, permission = JNum 1\<rparr>],
      ranks_bonus := [JNum 1 \<mapsto> JNum 3],
      settings := [''pointsPayoutLive'' \<mapsto> 0],
      cache_lastPayout := Some 1000,
      cache_lastUserList := Some [''alice''],
      stream_isLive := True,
      user_list := Some [''alice'']\<rparr>"

text \<open>
  The command \<open>points\<close> costs \<open>5\<close>; its subcommand \<open>add\<close> has a row of its own in
  the \<open>subcommands\<close> table, with price \<open>10\<close>.
\<close>

definition c3_world :: world where
  "c3_world = empty_world
     \<lparr>commands_price := [''points'' \<mapsto> 5], subcommands_price := [''add'' \<mapsto> 10]\<rparr>"

text \<open>
  A due live cycle with the default amount and interval: \<open>alice\<close> was present at the
  last payout and \<open>bob\<close> has just joined. No rank bonus is stored, and both users'
  permission group is a number.
\<close>

definition c6_world :: world where
  "c6_world = empty_world
     \<lparr>users := [''alice'' \<mapsto> \<lparr>points = 10, rank = JNum 1, permission = JNum 1\<rparr>,
                ''bob'' \<mapsto> \<lparr>points = 0, rank = JNum 1, permission = JNum 1\<rparr>],
      cache_lastPayout := Some 0,
      cache_lastUserList := Some [''alice''],
      stream_isLive := True,
      user_list := Some [''alice'', ''bob'']\<rparr>"

text \<open>A user without a rank bonus whose permission group \<open>2\<close> has a bonus of \<open>5\<close>.\<close>

definition c7_world :: world where
  "c7_world = empty_world
     \<lparr>users := [''alice'' \<mapsto> \<lparr>points = 10, rank = JNum 1, permission = JNum 2\<rparr>],
      groups_bonus_by_level := [JNum 2 \<mapsto> JNum 5]\<rparr>"

text \<open>
  A dispatch setting: one registered command \<open>boom\<close>, enabled, permission level
  \<open>5\<close>, never on cooldown, priced \<open>20\<close>, whose handler throws; both extension flags
  take their default \<open>true\<close>. The sender owns \<open>50\<close> points.
\<close>

definition throwing_handler :: handler where
  "throwing_handler ev w = (Threw (Thrown ''boom''), w)"

definition demo_ports :: ports where
  "demo_ports =
     \<lparr>getExtConfig = (\<lambda>ext key dflt. dflt),
      command_exists = (\<lambda>cmd sc. cmd = ''boom'' \<and> sc = None),
      command_isEnabled = (\<lambda>cmd sc. True),
      command_getPermLevel = (\<lambda>cmd sc. 5),
      command_isOnCooldown = (\<lambda>cmd user sc. JBool False),
      command_isCustom = (\<lambda>cmd. False),
      custom_response = (\<lambda>cmd. JNull),
      params = (\<lambda>ev response. []),
      getRunner = (\<lambda>cmd. Inr throwing_handler)\<rparr>"

definition demo_event :: "string \<Rightarrow> int \<Rightarrow> event" where
  "demo_event cmd gid =
     \<lparr>command = cmd, args = [], sender = ''alice'', whispered = False, groupID = gid,
      subcommand = None, subArgs = None, subArgString = None, respond = None\<rparr>"

definition demo_world :: world where
  "demo_world = empty_world
     \<lparr>users := [''alice'' \<mapsto> \<lparr>points = 50, rank = JNum 1, permission = JNum 1\<rparr>],
      commands_price := [''boom'' \<mapsto> 20]\<rparr>"

text \<open>
  The same setting with the handler \<open>async function () { throw new Error('boom') }\<close>:
  its call returns a promise that rejects.
\<close>

definition rejecting_handler :: handler where
  "rejecting_handler ev w = (Rejected (Thrown ''boom''), w)"

definition async_ports :: ports where
  "async_ports = demo_ports\<lparr>getRunner := (\<lambda>cmd. Inr rejecting_handler)\<rparr>"

text \<open>A legacy setting: an empty registry, and a cooldown read as the number \<open>0\<close>.\<close>

definition demo_legacy_ports :: legacy_ports where
  "demo_legacy_ports =
     \<lparr>registry = Map.empty,
      botDB_getValue = (\<lambda>table column name. JNull),
      botStore_get = (\<lambda>sql. JNum 0),
      legacy_getRunner = (\<lambda>cmd. Inr throwing_handler)\<rparr>"

text \<open>
  The legacy \<open>commands\<close> table is created by \<open>addTable\<close> with the plain column
  name \<open>'cooldown'\<close> (\<open>core.js\<close> line 165), which \<open>addTable\<close> declares as
  \<open>cooldown TEXT\<close> (\<open>db.js\<close> lines 96 to 98). A cooldown of zero stored there is
  read back as the text \<open>'0'\<close>.
\<close>

definition text_legacy_ports :: legacy_ports where
  "text_legacy_ports = demo_legacy_ports\<lparr>botStore_get := (\<lambda>sql. JStr ''0'')\<rparr>"

text \<open>An event bus with no listener.\<close>

definition no_listeners :: emitter where
  "no_listeners = \<lparr>listeners = (\<lambda>channel. [])\<rparr>"

section \<open>Affordability and prices\<close>

text \<open>
  C1. For a user whose balance is \<open>p\<close> and a (sub)command whose resolved price is
  \<open>q\<close>, \<open>canAffordCommand\<close> answers affordable exactly when \<open>p\<close> is strictly greater
  than \<open>q\<close>, so a balance equal to the price is not enough; the triple carries the
  fetched balance and price as they were read.
\<close>

theorem canAffordCommand_strict:
  assumes "getUserPoints w U = Some p" and "getCommandPrice w C S = Some q"
  shows "canAffordCommand w U C S = (q < p, Some p, Some q)
         \<and> (p = q \<longrightarrow> \<not> fst (canAffordCommand w U C S))"
  using assms by (simp add: canAffordCommand_def js_gt_def Let_def)

theorem canAffordCommand_strict_witness:
  "getUserPoints c1_world ''alice'' = Some 20
   \<and> getCommandPrice c1_world ''points'' None = Some 20
   \<and> canAffordCommand c1_world ''alice'' ''points'' None = (False, Some 20, Some 20)"
proof -
  have p: "getUserPoints c1_world ''alice'' = Some 20"
    by (simp add: getUserPoints_def c1_world_def empty_world_def)
  have q: "getCommandPrice c1_world ''points'' None = Some 20"
    by (simp add: getCommandPrice_def c1_world_def empty_world_def)
  from canAffordCommand_strict [OF p q] p q show ?thesis by simp
qed

text \<open>
  Where the balance or the price is \<open>null\<close>, the comparison reads it as \<open>0\<close>.
\<close>

lemma canAffordCommand_general:
  "canAffordCommand w U C S =
     (to_number (getCommandPrice w C S) < to_number (getUserPoints w U),
      getUserPoints w U, getCommandPrice w C S)"
  by (simp add: canAffordCommand_def js_gt_def Let_def)

text \<open>
  What \<open>getCommandPrice\<close> computes: the subcommand only selects the table, and the
  row is the one named like the command.
\<close>

lemma getCommandPrice_resolution:
  "getCommandPrice w C S =
     (if S = None \<or> S = Some [] then commands_price w C
      else if subcommands_price w C = Some (- 1) then commands_price w C
      else subcommands_price w C)"
  by (cases S) (simp_all add: getCommandPrice_def Let_def)

text \<open>
  C3. The claim is that with a subcommand \<open>S\<close> the resolved price is the price
  stored for the entry of \<open>S\<close>, or the command's price when that entry holds \<open>-1\<close>.
  The \<open>subcommands\<close> table keys a row by the subcommand's own name, with the
  command in the \<open>parent\<close> column (\<open>loadTables\<close>), but \<open>getCommandPrice\<close> filters
  on \<open>{ name: cmd }\<close>. So the entry of \<open>add\<close> holds \<open>10\<close>, yet the price resolved
  for \<open>points add\<close> is \<open>null\<close>: the table is searched for a row named \<open>points\<close>.
\<close>

theorem getCommandPrice_misses_subcommand_entry:
  "subcommands_price c3_world ''add'' = Some 10
   \<and> getCommandPrice c3_world ''points'' (Some ''add'') = None
   \<and> getCommandPrice c3_world ''points'' (Some ''add'')
       \<noteq> (if subcommands_price c3_world ''add'' = Some (- 1)
           then commands_price c3_world ''points''
           else subcommands_price c3_world ''add'')"
  by (simp add: getCommandPrice_def c3_world_def empty_world_def)

section \<open>The payout job\<close>

text \<open>
  Offline, a non-positive amount or interval makes \<open>run\<close> return at once, with the
  state as it was.
\<close>

lemma run_offline_skip:
  assumes "\<not> stream_isLive w"
      and "getPayoutAmount w True \<le> 0 \<or> getPayoutInterval w True \<le> 0"
  shows "run now w = (None, w)"
  using assms by (auto simp add: run_def Let_def)

text \<open>
  C2. The claim is that a non-positive amount or interval of the active branch skips
  the run, leaving balances, \<open>lastPayout\<close> and \<open>lastUserList\<close> as they were. Live,
  the code does not skip: with the live amount \<open>0\<close> the run at \<open>2000\<close> pays \<open>alice\<close>
  her rank bonus of \<open>3\<close> (one second after the last payout, the interval being five
  minutes) and moves \<open>lastPayout\<close> to \<open>2000\<close>.
\<close>

theorem run_live_nonpositive_amount_pays:
  "run 2000 c2_world =
     (None, c2_world
        \<lparr>users := [''alice'' \<mapsto> \<lparr>points = 13, rank = JNum 1, permission = JNum 1\<rparr>],
         cache_lastUserList := Some [''alice''],
         cache_lastPayout := Some 2000\<rparr>)"
  by (simp add: run_def run_pay_def payUser_def bonus_of_def getRankBonus_def db_get_def
      db_incr_points_def getPayoutAmount_def getPayoutInterval_def settings_get_def
      c2_world_def empty_world_def Let_def)

text \<open>
  What holds of every cycle: the bot's own account and a user who is not in the
  previous cycle's list are passed over, whatever happens to the other users.
\<close>

lemma payUser_bot: "payUser payout l (botName w) w = (None, w)"
  by (simp add: payUser_def)

lemma payUser_new_joiner: "user \<notin> set l \<Longrightarrow> payUser payout l user w = (None, w)"
  by (simp add: payUser_def)

lemma payUser_frame:
  "payUser payout l u w = (e, w1) \<Longrightarrow>
     botName w1 = botName w \<and> (\<forall>v. v \<noteq> u \<longrightarrow> users w1 v = users w v)"
  by (auto simp add: payUser_def db_incr_points_def split: if_splits option.splits sum.splits)

lemma promise_map_payUser_frame:
  assumes "u = botName w \<or> u \<notin> set l"
  shows "users (snd (promise_map (payUser payout l) us w)) u = users w u
         \<and> botName (snd (promise_map (payUser payout l) us w)) = botName w"
  using assms
proof (induction us arbitrary: w)
  case Nil
  then show ?case by simp
next
  case (Cons a us)
  obtain e w1 where step: "payUser payout l a w = (e, w1)" by (cases "payUser payout l a w")
  have bn: "botName w1 = botName w" using payUser_frame [OF step] by simp
  have keep: "users w1 u = users w u"
  proof (cases "a = u")
    case True
    with Cons.prems step show ?thesis by (auto simp add: payUser_def split: if_splits)
  next
    case False
    with payUser_frame [OF step] show ?thesis by simp
  qed
  from Cons.prems bn have "u = botName w1 \<or> u \<notin> set l" by simp
  from Cons.IH [OF this] bn keep step show ?case
    by (auto split: prod.splits)
qed

lemma run_pay_unpaid:
  assumes "u = botName w \<or> u \<notin> set (case cache_lastUserList w of None \<Rightarrow> [] | Some l \<Rightarrow> l)"
  shows "users (snd (run_pay now payout w)) u = users w u"
proof -
  let ?l = "case cache_lastUserList w of None \<Rightarrow> [] | Some l \<Rightarrow> l"
  let ?us = "case user_list w of None \<Rightarrow> [] | Some l \<Rightarrow> l"
  from promise_map_payUser_frame [OF assms, of payout ?us]
  show ?thesis
    by (cases "promise_map (payUser payout ?l) ?us w")
       (auto simp add: run_pay_def Let_def split: option.splits)
qed

text \<open>A cycle that ends without a rejection writes the user list and the time.\<close>

lemma run_pay_completed:
  assumes "run_pay now payout w = (None, w1)"
  shows "cache_lastUserList w1 = Some (case user_list w of None \<Rightarrow> [] | Some l \<Rightarrow> l)
         \<and> cache_lastPayout w1 = Some now"
  using assms
  by (auto simp add: run_pay_def Let_def split: prod.splits option.splits)

text \<open>
  C6. The claim is that every due cycle ends with \<open>lastUserList\<close> replaced by the
  current user list and \<open>lastPayout\<close> advanced, so that a user who has just joined
  is eligible in the next cycle. In the due cycle below the bonus lookup for \<open>alice\<close>
  throws (no rank bonus, numeric permission group), \<open>run\<close> rejects, and the state is
  left as it was: \<open>lastUserList\<close> is still without \<open>bob\<close> and \<open>lastPayout\<close> is still
  \<open>0\<close>.
\<close>

theorem run_rejects_before_cache_update:
  "run 1000000 c6_world = (Some (ReferenceError ''_storedGroupBonus is not defined''), c6_world)"
  by (simp add: run_def run_pay_def payUser_def bonus_of_def getRankBonus_def getGroupBonus_def
      db_get_def db_incr_points_def getPayoutAmount_def getPayoutInterval_def settings_get_def
      c6_world_def empty_world_def Let_def)

text \<open>A rank bonus other than \<open>0\<close> is the bonus, and the group is not looked up.\<close>

lemma bonus_of_rank_first:
  "getRankBonus w (rank res) \<noteq> 0 \<Longrightarrow> bonus_of w res = Inr (getRankBonus w (rank res))"
  by (simp add: bonus_of_def Let_def)

text \<open>
  C7. The claim is that a user without a rank bonus is paid the bonus of the
  permission group as fallback. Group \<open>2\<close> has a bonus of \<open>5\<close> stored, but the
  fallback throws a ReferenceError instead of returning it, and the user is paid
  nothing, not even the base payout.
\<close>

theorem group_bonus_fallback_throws:
  "db_get (groups_bonus_by_level c7_world) (JNum 2) = JNum 5
   \<and> bonus_of c7_world \<lparr>points = 10, rank = JNum 1, permission = JNum 2\<rparr>
       = Inl (ReferenceError ''_storedGroupBonus is not defined'')
   \<and> payUser 6 [''alice''] ''alice'' c7_world
       = (Some (ReferenceError ''_storedGroupBonus is not defined''), c7_world)"
  by (simp add: payUser_def bonus_of_def getRankBonus_def getGroupBonus_def db_get_def
      c7_world_def empty_world_def Let_def)

section \<open>Dispatch\<close>

lemma command_assign_subEvent [simp]: "command (assign_subEvent ev se) = command ev"
  by (simp add: assign_subEvent_def split: option.splits prod.splits)

lemma sender_assign_subEvent [simp]: "sender (assign_subEvent ev se) = sender ev"
  by (simp add: assign_subEvent_def split: option.splits prod.splits)

text \<open>
  When an event passes every check, its command is not custom, and the call of the
  handler itself throws \<open>e\<close>, leaving the state \<open>w1\<close>, then \<open>runCommand\<close> returns
  normally and leaves \<open>w1\<close> with one more entry, the error log: no cooldown, no
  debit, no completion event.
\<close>

lemma runCommand_call_throws:
  assumes "getSubcommand p ev = (sc, se)"
      and "ev1 = (if truthy_str sc then assign_subEvent ev se else ev)"
      and "command_exists p (command ev) None"
      and "command_isEnabled p (command ev) sc"
      and "getExtConfig p ''cooldown'' ''enabled'' True
             \<longrightarrow> \<not> truthy (command_isOnCooldown p (command ev) (sender ev) sc)"
      and "groupID ev \<le> command_getPermLevel p (command ev) sc"
      and "getExtConfig p ''points'' ''enabled'' True
             \<longrightarrow> fst (canAffordCommand w (sender ev) (command ev) sc)"
      and "\<not> command_isCustom p (command ev)"
      and "getRunner p (command ev) = Inr h"
      and "h (ev1\<lparr>respond := Some (createResponder ev1)\<rparr>) w = (Threw e, w1)"
  shows "runCommand p ev w
           = (None, w1\<lparr>out := out w1 @ [LogError ''core'' (Text (error_message e))]\<rparr>)"
  using assms
  by (auto simp add: runCommand_def runCommand_afford_def runCommand_execute_def emit_log_def
      Let_def split: prod.splits)

text \<open>
  C4. The claim is that a handler that throws during its invocation is caught and
  logged and that no side effect is committed. For a handler that is an \<open>async\<close>
  function this fails: its throw rejects the promise the call returns, the call is
  not awaited, and the \<open>catch\<close> is not entered. In the dispatch below nothing is
  logged, the cooldown is started, the sender is debited the price of \<open>20\<close> (from
  \<open>50\<close> to \<open>30\<close>) and the completion event \<open>command:boom\<close> is emitted.
\<close>

theorem runCommand_async_throw_commits:
  "runCommand async_ports (demo_event ''boom'' 5) demo_world
     = (None, demo_world
          \<lparr>users := [''alice'' \<mapsto> \<lparr>points = 30, rank = JNum 1, permission = JNum 1\<rparr>],
           out := [StartCooldown ''boom'' ''alice'' None,
                   Emit ''command:boom''
                     ((demo_event ''boom'' 5)\<lparr>respond := Some (SayTo ''alice'')\<rparr>)]\<rparr>)"
  by (simp add: runCommand_def runCommand_afford_def runCommand_execute_def
      runCommand_commit_def getSubcommand_def canAffordCommand_def getCommandPrice_def
      getUserPoints_def js_gt_def sub_def db_decr_points_def createResponder_def emit_log_def
      async_ports_def demo_ports_def rejecting_handler_def demo_event_def demo_world_def
      empty_world_def Let_def)

text \<open>A throw while the handler is resolved is caught in the same way.\<close>

lemma runCommand_execute_resolution_throws:
  assumes "\<not> command_isCustom p (command ev)" and "getRunner p (command ev) = Inl e"
  shows "runCommand_execute p pe ce charge sc ev w
           = (None, w\<lparr>out := out w @ [LogError ''core'' (Text (error_message e))]\<rparr>)"
  using assms by (simp add: runCommand_execute_def emit_log_def Let_def)

text \<open>
  C5. For an event whose command is not registered, \<open>runCommand\<close> returns with the
  state as it was but for one log entry: no table is written, nothing is whispered
  or said, no cooldown is started and no completion event is emitted. The legacy
  \<open>core.runCommand\<close> does the same.
\<close>

theorem runCommand_unregistered_silent:
  "(\<not> command_exists p (command ev) None \<longrightarrow>
      runCommand p ev w
        = (None, w\<lparr>out := out w @ [LogEvent ''core'' (NotRegistered (command ev))]\<rparr>))
   \<and> (registry lp (command ev) = None \<longrightarrow>
      legacy_runCommand lp ev w
        = w\<lparr>out := out w @ [LoggerBot (NotRegistered (command ev))]\<rparr>)"
  by (auto simp add: runCommand_def legacy_runCommand_def emit_log_def Let_def split: prod.splits)

theorem runCommand_unregistered_silent_witness:
  "runCommand demo_ports (demo_event ''nope'' 0) demo_world
     = (None, demo_world\<lparr>out := [LogEvent ''core'' (NotRegistered ''nope'')]\<rparr>)
   \<and> legacy_runCommand demo_legacy_ports (demo_event ''nope'' 0) demo_world
     = demo_world\<lparr>out := [LoggerBot (NotRegistered ''nope'')]\<rparr>"
  using runCommand_unregistered_silent
          [of demo_ports "demo_event ''nope'' 0" demo_world demo_legacy_ports]
  by (simp add: demo_ports_def demo_legacy_ports_def demo_event_def demo_world_def
      empty_world_def)

text \<open>
  C8. For an event that passes the existence, enablement and cooldown checks: when
  the sender's group level is strictly greater than the permission level of the
  resolved (sub)command, \<open>runCommand\<close> logs, whispers the notice to the sender and
  returns, with nothing else changed (no handler call, no cooldown, no debit, no
  completion event); otherwise it goes on to the affordability check.
\<close>

theorem runCommand_permission_gate:
  assumes "getSubcommand p ev = (sc, se)"
      and "command_exists p (command ev) None"
      and "command_isEnabled p (command ev) sc"
      and "getExtConfig p ''cooldown'' ''enabled'' True
             \<longrightarrow> \<not> truthy (command_isOnCooldown p (command ev) (sender ev) sc)"
  shows "runCommand p ev w =
           (if groupID ev > command_getPermLevel p (command ev) sc then
              (None, w\<lparr>out := out w @
                 [LogEvent ''core'' (NoPermission (sender ev) (command ev)),
                  Whisper (sender ev) (NoPermissionNotice (command ev))]\<rparr>)
            else runCommand_afford p (getExtConfig p ''points'' ''enabled'' True)
                   (getExtConfig p ''cooldown'' ''enabled'' True) sc
                   (if truthy_str sc then assign_subEvent ev se else ev) w)"
  using assms
  by (auto simp add: runCommand_def emit_log_def Let_def)

theorem runCommand_permission_gate_witness:
  "runCommand demo_ports (demo_event ''boom'' 6) demo_world
     = (None, demo_world\<lparr>out :=
          [LogEvent ''core'' (NoPermission ''alice'' ''boom''),
           Whisper ''alice'' (NoPermissionNotice ''boom'')]\<rparr>)
   \<and> runCommand demo_ports (demo_event ''boom'' 5) demo_world
     = runCommand_afford demo_ports True True None (demo_event ''boom'' 5) demo_world"
proof -
  have a1: "getSubcommand demo_ports (demo_event ''boom'' g) = (None, None)" for g
    by (simp add: getSubcommand_def demo_event_def)
  have a2: "command_exists demo_ports (command (demo_event ''boom'' g)) None" for g
    by (simp add: demo_ports_def demo_event_def)
  have a3: "command_isEnabled demo_ports (command (demo_event ''boom'' g)) None" for g
    by (simp add: demo_ports_def)
  have a4: "getExtConfig demo_ports ''cooldown'' ''enabled'' True
             \<longrightarrow> \<not> truthy (command_isOnCooldown demo_ports (command (demo_event ''boom'' g))
                    (sender (demo_event ''boom'' g)) None)" for g
    by (simp add: demo_ports_def)
  from runCommand_permission_gate [OF a1 a2 a3 a4, of 6 demo_world]
       runCommand_permission_gate [OF a1 a2 a3 a4, of 5 demo_world]
  show ?thesis
    by (simp add: demo_ports_def demo_event_def demo_world_def empty_world_def)
qed

section \<open>Listener registration\<close>

lemma count_list_remove1_same: "count_list (remove1 x xs) x = count_list xs x - 1"
  by (induction xs) auto

lemma count_list_remove1_other: "y \<noteq> x \<Longrightarrow> count_list (remove1 x xs) y = count_list xs y"
  by (induction xs) auto

lemma listeners_on:
  "listeners (on channel fn True e) channel = remove1 fn (listeners e channel) @ [fn]"
  by (simp add: on_def off_def super_on_def)

lemma on_keeps_other_listeners:
  "g \<noteq> fn \<Longrightarrow>
     count_list (listeners (on channel fn True e) channel) g = count_list (listeners e channel) g"
  by (simp add: listeners_on count_list_remove1_other)

text \<open>
  C9. On a bus where the listener is registered on the channel at most once, adding
  it twice through \<open>on\<close> with the default \<open>single = true\<close> leaves it registered
  exactly once, and an emission on the channel calls it exactly once.
\<close>

theorem on_twice_registers_once:
  assumes "count_list (listeners e channel) fn \<le> 1"
  shows "count_list (listeners (on channel fn True (on channel fn True e)) channel) fn = 1
         \<and> count_list (emit channel (on channel fn True (on channel fn True e))) fn = 1"
  using assms
  by (simp add: emit_def listeners_on count_list_remove1_same)

theorem on_twice_registers_once_witness:
  "listeners (on ''ready'' 7 True (on ''ready'' 7 True no_listeners)) ''ready'' = [7]
   \<and> emit ''ready'' (on ''ready'' 7 True (on ''ready'' 7 True no_listeners)) = [7]
   \<and> count_list (emit ''ready'' (on ''ready'' 7 True (on ''ready'' 7 True no_listeners))) 7 = 1"
proof -
  have h: "count_list (listeners no_listeners ''ready'') (7::nat) \<le> 1"
    by (simp add: no_listeners_def)
  from on_twice_registers_once [OF h] show ?thesis
    by (simp add: emit_def listeners_on no_listeners_def)
qed

section \<open>The legacy cooldown accessor\<close>

text \<open>
  C10, as stated: for a command whose stored cooldown is \<open>0\<close>, \<open>getCooldown\<close>
  returns \<open>30\<close>, so a zero-second cooldown is never observed. This fails: the text
  \<open>'0'\<close>, which the TEXT column gives back for a stored zero, is truthy, and
  \<open>getCooldown\<close> returns it as it is.
\<close>

theorem getCooldown_text_zero_counterexample:
  "botStore_get text_legacy_ports (cooldown_query ''boom'') = JStr ''0''
   \<and> getCooldown text_legacy_ports ''boom'' = JStr ''0''
   \<and> getCooldown text_legacy_ports ''boom'' \<noteq> JNum 30"
  by (simp add: getCooldown_def js_or_def text_legacy_ports_def demo_legacy_ports_def)

text \<open>
  C10, amended. When the value read for a command's cooldown is falsy (the number
  \<open>0\<close>, \<open>null\<close>, \<open>undefined\<close>, the empty string or \<open>false\<close>), the legacy
  \<open>getCooldown\<close> returns \<open>30\<close>; any other value is returned as read, the text
  \<open>'0'\<close> included. So the number \<open>0\<close> is never returned.
\<close>

theorem getCooldown_falsy_read_is_30:
  "getCooldown lp cmd =
     (if botStore_get lp (cooldown_query cmd) = JNum 0
         \<or> botStore_get lp (cooldown_query cmd) = JNull
         \<or> botStore_get lp (cooldown_query cmd) = JUndefined
         \<or> botStore_get lp (cooldown_query cmd) = JStr []
         \<or> botStore_get lp (cooldown_query cmd) = JBool False
      then JNum 30
      else botStore_get lp (cooldown_query cmd))
   \<and> getCooldown lp cmd \<noteq> JNum 0"
  by (cases "botStore_get lp (cooldown_query cmd)") (auto simp add: getCooldown_def js_or_def)

theorem getCooldown_falsy_read_is_30_witness:
  "getCooldown demo_legacy_ports ''boom'' = JNum 30
   \<and> getCooldown text_legacy_ports ''boom'' = JStr ''0''"
  using getCooldown_falsy_read_is_30 [of demo_legacy_ports "''boom''"]
        getCooldown_falsy_read_is_30 [of text_legacy_ports "''boom''"]
  by (simp add: text_legacy_ports_def demo_legacy_ports_def)

end
